theory Spec2Isabelle
  imports Complex_Main
begin

section \<open>Numbers, series and frames\<close>

text \<open>
  The program of \<^verbatim>\<open>app.py\<close> computes with the double precision values of numpy and
  pandas. They are modelled by their four kinds of value: a finite number, the two
  infinities and NaN. Arithmetic on finite numbers is exact (the rounding of the machine
  and the sign of zero are not modelled); the special values follow IEEE 754, since the
  program relies on them: \<^verbatim>\<open>shift(1)\<close> introduces a NaN, \<^verbatim>\<open>dropna()\<close> removes the NaNs, and
  the mean of no value at all is NaN.
\<close>

datatype float64 = Fin real | PInf | NInf | NaN

fun fadd :: "float64 \<Rightarrow> float64 \<Rightarrow> float64" where
  "fadd NaN _ = NaN"
| "fadd _ NaN = NaN"
| "fadd (Fin a) (Fin b) = Fin (a + b)"
| "fadd PInf NInf = NaN"
| "fadd NInf PInf = NaN"
| "fadd PInf _ = PInf"
| "fadd _ PInf = PInf"
| "fadd NInf _ = NInf"
| "fadd _ NInf = NInf"

text \<open>The sign of a value: \<open>None\<close> for NaN, otherwise \<open>-1\<close>, \<open>0\<close> or \<open>1\<close>.\<close>

fun fsign :: "float64 \<Rightarrow> int option" where
  "fsign NaN = None"
| "fsign PInf = Some 1"
| "fsign NInf = Some (- 1)"
| "fsign (Fin a) = Some (if a < 0 then - 1 else if a = 0 then 0 else 1)"

definition signed_inf :: "int \<Rightarrow> float64" where
  "signed_inf k = (if k < 0 then NInf else if k = 0 then NaN else PInf)"

fun is_finite :: "float64 \<Rightarrow> bool" where
  "is_finite (Fin _) = True"
| "is_finite _ = False"

fun fmul :: "float64 \<Rightarrow> float64 \<Rightarrow> float64" where
  "fmul (Fin a) (Fin b) = Fin (a * b)"
| "fmul x y =
     (case (fsign x, fsign y) of
        (Some j, Some k) \<Rightarrow> signed_inf (j * k)
      | _ \<Rightarrow> NaN)"

fun fdiv :: "float64 \<Rightarrow> float64 \<Rightarrow> float64" where
  "fdiv NaN _ = NaN"
| "fdiv _ NaN = NaN"
| "fdiv (Fin a) (Fin b) =
     (if b = 0 then signed_inf (if a < 0 then - 1 else if a = 0 then 0 else 1)
      else Fin (a / b))"
| "fdiv (Fin a) _ = Fin 0"
| "fdiv x (Fin b) =
     (case fsign x of
        Some j \<Rightarrow> signed_inf (j * (if b < 0 then - 1 else 1))
      | None \<Rightarrow> NaN)"
| "fdiv _ _ = NaN"

text \<open>\<^verbatim>\<open>np.log\<close>: minus infinity at zero, NaN below zero.\<close>

fun flog :: "float64 \<Rightarrow> float64" where
  "flog (Fin a) = (if a < 0 then NaN else if a = 0 then NInf else Fin (ln a))"
| "flog PInf = PInf"
| "flog NInf = NaN"
| "flog NaN = NaN"

text \<open>
  A pandas Series is its rows in order, each an index label (here a date, counted in
  days) with a value. A DataFrame is an index and named columns of values.
\<close>

type_synonym date = nat

type_synonym series = "(date \<times> float64) list"

record dataframe =
  index :: "date list"
  columns :: "(string \<times> float64 list) list"

text \<open>\<^verbatim>\<open>DataFrame.empty\<close>: an axis of length zero.\<close>

definition df_empty :: "dataframe \<Rightarrow> bool" where
  "df_empty df = (index df = [] \<or> columns df = [])"

text \<open>\<^verbatim>\<open>df[name]\<close>, with \<open>None\<close> where pandas raises \<^verbatim>\<open>KeyError\<close>.\<close>

definition df_column :: "dataframe \<Rightarrow> string \<Rightarrow> series option" where
  "df_column df name = map_option (zip (index df)) (map_of (columns df) name)"

text \<open>\<^verbatim>\<open>s.shift(1)\<close>: every value moves one row down, the first row gets NaN.\<close>

definition shift1 :: "series \<Rightarrow> series" where
  "shift1 s = zip (map fst s) (NaN # butlast (map snd s))"

text \<open>
  An elementwise operation on two series that carry the same index, as
  \<^verbatim>\<open>s / s.shift(1)\<close> does.
\<close>

definition series_div :: "series \<Rightarrow> series \<Rightarrow> series" where
  "series_div s t = map (\<lambda>((d, x), (_, y)). (d, fdiv x y)) (zip s t)"

definition series_log :: "series \<Rightarrow> series" where
  "series_log s = map (\<lambda>(d, x). (d, flog x)) s"

definition dropna :: "series \<Rightarrow> series" where
  "dropna s = filter (\<lambda>(d, x). x \<noteq> NaN) s"

text \<open>\<^verbatim>\<open>np.log(s / s.shift(1)).dropna()\<close>\<close>

definition log_returns :: "series \<Rightarrow> series" where
  "log_returns s = dropna (series_log (series_div s (shift1 s)))"

definition fsum :: "float64 list \<Rightarrow> float64" where
  "fsum xs = foldl fadd (Fin 0) xs"

text \<open>\<^verbatim>\<open>Series.mean()\<close>: NaNs are skipped; with no value left the mean is NaN.\<close>

definition series_mean :: "series \<Rightarrow> float64" where
  "series_mean s =
     (let xs = filter (\<lambda>x. x \<noteq> NaN) (map snd s)
      in if xs = [] then NaN else fdiv (fsum xs) (Fin (real (length xs))))"

section \<open>The data source and the page\<close>

text \<open>
  The exceptions are the subclasses of \<^verbatim>\<open>Exception\<close> the program can meet; the
  interrupts that derive from \<^verbatim>\<open>BaseException\<close> only are outside the model.
\<close>

datatype exn = KeyError | TypeError | LinAlgError | ProviderError

text \<open>One call of \<^verbatim>\<open>yf.download\<close> raises or returns a frame.\<close>

datatype response = Raises exn | Returns dataframe

text \<open>
  The data source answers a request from the number of requests the run has made
  before, the ticker and the period: its answers may change from one request to the
  next.
\<close>

type_synonym provider = "nat \<Rightarrow> string \<Rightarrow> string \<Rightarrow> response"

text \<open>
  What \<^verbatim>\<open>np.polyfit\<close> answers where its scaled matrix or its right-hand side holds
  an infinity or a NaN depends on the LAPACK build behind numpy (an error, or NaNs), so
  that answer is a parameter of the model, beside the data source.
\<close>

type_synonym fit = "exn + float64 \<times> float64"

record env =
  download :: provider
  lstsq_nonfinite :: "float64 list \<Rightarrow> float64 list \<Rightarrow> fit"

text \<open>The texts of \<^verbatim>\<open>st.error\<close>, by the place that reports them.\<close>

datatype message =
    No_data string
  | Not_available string
  | Fetch_failed string
  | No_spy_data
  | Beta_failed string

record trace =
  trace_name :: string
  trace_color :: string
  trace_data :: series

text \<open>What \<^verbatim>\<open>st.write\<close> and \<^verbatim>\<open>st.plotly_chart\<close> put on the page.\<close>

datatype element =
    Beta_line string float64
  | Spy_line
  | Blank_line
  | No_valid_tickers
  | Chart "trace list"

record session =
  fetches :: "(string \<times> string) list"
  errors :: "message list"
  page :: "element list"

definition st_error :: "message \<Rightarrow> session \<Rightarrow> session" where
  "st_error m s = s\<lparr>errors := errors s @ [m]\<rparr>"

definition st_write :: "element \<Rightarrow> session \<Rightarrow> session" where
  "st_write out s = s\<lparr>page := page s @ [out]\<rparr>"

definition yf_download :: "env \<Rightarrow> string \<Rightarrow> string \<Rightarrow> session \<Rightarrow> response \<times> session" where
  "yf_download w period ticker s =
     (download w (length (fetches s)) ticker period,
      s\<lparr>fetches := fetches s @ [(ticker, period)]\<rparr>)"

section \<open>The data fetcher\<close>

text \<open>
  The body of the \<^verbatim>\<open>try\<close> of \<^verbatim>\<open>get_historical_data\<close>: the result is \<open>Inl\<close> where the
  body raises.
\<close>

definition get_historical_data_body ::
  "env \<Rightarrow> string \<Rightarrow> string \<Rightarrow> session \<Rightarrow> (exn + series option) \<times> session" where
  "get_historical_data_body w period ticker s =
     (if ticker = [] then (Inr None, s)
      else
        (case yf_download w period ticker s of
           (Raises e, s') \<Rightarrow> (Inl e, s')
         | (Returns stock_data, s') \<Rightarrow>
             if df_empty stock_data then (Inr None, st_error (No_data ticker) s')
             else
               (case df_column stock_data ''Adj Close'' of
                  Some adj \<Rightarrow> (Inr (Some adj), s')
                | None \<Rightarrow> (Inr None, st_error (Not_available ticker) s'))))"

definition get_historical_data ::
  "env \<Rightarrow> string \<Rightarrow> string \<Rightarrow> session \<Rightarrow> (exn + series option) \<times> session" where
  "get_historical_data w period ticker s =
     (case get_historical_data_body w period ticker s of
        (Inl e, s') \<Rightarrow> (Inr None, st_error (Fetch_failed ticker) s')
      | (Inr r, s') \<Rightarrow> (Inr r, s'))"

section \<open>The return calculator\<close>

definition calculate_average_annual_return ::
  "env \<Rightarrow> string \<Rightarrow> string \<Rightarrow> session \<Rightarrow> (exn + float64 option) \<times> session" where
  "calculate_average_annual_return w period ticker2 s =
     (case get_historical_data w period ticker2 s of
        (Inl e, s') \<Rightarrow> (Inl e, s')
      | (Inr None, s') \<Rightarrow> (Inr None, s')
      | (Inr (Some closing_prices), s') \<Rightarrow>
          (let average_daily_return = series_mean (log_returns closing_prices);
               average_annual_return = fmul average_daily_return (Fin 252)
           in (Inr (Some (fmul average_annual_return (Fin 100))), s')))"

section \<open>The beta calculator\<close>

text \<open>
  \<^verbatim>\<open>pd.merge(left, right, how='inner', left_index=True, right_index=True)\<close> of two
  series: a row for every pair of a left and a right row with the same date, in the
  order of the left rows. For two series with one row a date, in increasing order of
  the dates, these are the rows of the dates present in both, in that order.
\<close>

definition pd_merge :: "series \<Rightarrow> series \<Rightarrow> (date \<times> float64 \<times> float64) list" where
  "pd_merge l r =
     concat (map (\<lambda>(d, x). map (\<lambda>(_, y). (d, x, y)) (filter (\<lambda>(d', _). d' = d) r)) l)"

definition left_column :: "(date \<times> float64 \<times> float64) list \<Rightarrow> series" where
  "left_column m = map (\<lambda>(d, x, y). (d, x)) m"

definition right_column :: "(date \<times> float64 \<times> float64) list \<Rightarrow> series" where
  "right_column m = map (\<lambda>(d, x, y). (d, y)) m"

fun the_fin :: "float64 \<Rightarrow> real" where
  "the_fin (Fin a) = a"
| "the_fin _ = 0"

definition mean :: "real list \<Rightarrow> real" where
  "mean xs = sum_list xs / real (length xs)"

text \<open>
  \<^verbatim>\<open>np.polyfit(x, y, 1)\<close>, the least squares line through the points, as
  (slope, intercept). numpy raises \<^verbatim>\<open>TypeError\<close> for an empty \<open>x\<close> and for vectors of
  different lengths. It divides the columns of the matrix of rows \<open>(x\<^sub>i, 1)\<close> by their
  norms and takes the least squares solution of least norm: the line of ordinary least
  squares where the \<open>x\<^sub>i\<close> are not all equal; where they all equal \<open>c \<noteq> 0\<close> the matrix
  has rank one and the solution is slope \<open>mean y / (2 c)\<close>, intercept \<open>mean y / 2\<close>;
  where they are all zero the first column is divided by zero. In that case, and where
  a value of \<open>x\<close> or \<open>y\<close> is not finite, the answer is the parameter \<open>nonfinite\<close>.
\<close>

definition polyfit1 ::
  "(float64 list \<Rightarrow> float64 list \<Rightarrow> fit) \<Rightarrow> float64 list \<Rightarrow> float64 list \<Rightarrow> fit" where
  "polyfit1 nonfinite x y =
     (if x = [] then Inl TypeError
      else if length x \<noteq> length y then Inl TypeError
      else if \<not> (list_all is_finite x \<and> list_all is_finite y) then nonfinite x y
      else
        (let xs = map the_fin x; ys = map the_fin y;
             sxx = (\<Sum>a\<leftarrow>xs. (a - mean xs)\<^sup>2);
             sxy = (\<Sum>(a, b)\<leftarrow>zip xs ys. (a - mean xs) * (b - mean ys))
         in if sxx \<noteq> 0 then
              Inr (Fin (sxy / sxx), Fin (mean ys - sxy / sxx * mean xs))
            else if mean xs = 0 then nonfinite x y
            else Inr (Fin (mean ys / (2 * mean xs)), Fin (mean ys / 2))))"

text \<open>
  Lines 88 to 93 of \<^verbatim>\<open>calculate_beta\<close>: the inner join of the two series, the log
  returns of both columns and the fit of the stock's returns against the benchmark's.
\<close>

definition regression :: "env \<Rightarrow> series \<Rightarrow> series \<Rightarrow> fit" where
  "regression w stock_data spy_data =
     (let merged_data = pd_merge stock_data spy_data;
          log_returns_stock = log_returns (left_column merged_data);
          log_returns_spy = log_returns (right_column merged_data)
      in polyfit1 (lstsq_nonfinite w) (map snd log_returns_spy) (map snd log_returns_stock))"

definition calculate_beta_body ::
  "env \<Rightarrow> string \<Rightarrow> string \<Rightarrow> session \<Rightarrow> (exn + float64 option) \<times> session" where
  "calculate_beta_body w period ticker s =
     (if ticker = ''SPY'' then (Inr (Some (Fin 1)), s)
      else
        (case get_historical_data w period ticker s of
           (Inl e, s1) \<Rightarrow> (Inl e, s1)
         | (Inr None, s1) \<Rightarrow> (Inr None, s1)
         | (Inr (Some stock_data), s1) \<Rightarrow>
             (case yf_download w period ''SPY'' s1 of
                (Raises e, s2) \<Rightarrow> (Inl e, s2)
              | (Returns df, s2) \<Rightarrow>
                  (case df_column df ''Adj Close'' of
                     None \<Rightarrow> (Inl KeyError, s2)
                   | Some spy_data \<Rightarrow>
                       if spy_data = [] then (Inr None, st_error No_spy_data s2)
                       else
                         (case regression w stock_data spy_data of
                            Inl e \<Rightarrow> (Inl e, s2)
                          | Inr (slope, intercept) \<Rightarrow> (Inr (Some slope), s2))))))"

definition calculate_beta ::
  "env \<Rightarrow> string \<Rightarrow> string \<Rightarrow> session \<Rightarrow> (exn + float64 option) \<times> session" where
  "calculate_beta w period ticker s =
     (case calculate_beta_body w period ticker s of
        (Inl e, s') \<Rightarrow> (Inr None, st_error (Beta_failed ticker) s')
      | (Inr r, s') \<Rightarrow> (Inr r, s'))"

section \<open>The chart renderer\<close>

definition line_colors :: "string list" where
  "line_colors =
     [''blue'', ''red'', ''green'', ''orange'', ''purple'', ''yellow'', ''cyan'',
      ''magenta'', ''brown'', ''pink'', ''gray'', ''olive'', ''teal'']"

text \<open>The loop of \<^verbatim>\<open>visualize_returns\<close> from position \<open>i\<close> on, \<open>fig\<close> the traces so far.\<close>

fun add_traces ::
  "env \<Rightarrow> string \<Rightarrow> nat \<Rightarrow> string list \<Rightarrow> trace list \<Rightarrow> session \<Rightarrow> (exn + trace list) \<times> session" where
  "add_traces w period i [] fig s = (Inr fig, s)"
| "add_traces w period i (ticker # rest) fig s =
     (case get_historical_data w period ticker s of
        (Inl e, s') \<Rightarrow> (Inl e, s')
      | (Inr None, s') \<Rightarrow> add_traces w period (Suc i) rest fig s'
      | (Inr (Some data), s') \<Rightarrow>
          add_traces w period (Suc i) rest
            (fig @ [\<lparr>trace_name = ticker,
                     trace_color = line_colors ! (i mod length line_colors),
                     trace_data = data\<rparr>]) s')"

definition visualize_returns ::
  "env \<Rightarrow> string \<Rightarrow> string list \<Rightarrow> session \<Rightarrow> (exn + unit) \<times> session" where
  "visualize_returns w period tickers s =
     (case add_traces w period 0 tickers [] s of
        (Inl e, s') \<Rightarrow> (Inl e, s')
      | (Inr fig, s') \<Rightarrow> (Inr (), st_write (Chart fig) s'))"

section \<open>The script\<close>

text \<open>
  The text inputs of the page, in order of their keys; an input that does not exist yet
  holds the empty string. The loop \<^verbatim>\<open>while True\<close> reads them up to the first empty one.
\<close>

fun collect_tickers :: "string list \<Rightarrow> string list" where
  "collect_tickers [] = []"
| "collect_tickers (new_ticker # rest) =
     (if new_ticker = [] then [] else new_ticker # collect_tickers rest)"

record lists =
  valid_tickers :: "string list"
  individual_returns :: "float64 list"
  individual_betas :: "float64 list"

text \<open>The body of \<^verbatim>\<open>for ticker in tickers\<close>, once \<open>average_annual_return\<close> and \<open>beta\<close> are known.\<close>

definition record_ticker ::
  "string \<Rightarrow> float64 option \<Rightarrow> float64 option \<Rightarrow> lists \<times> session \<Rightarrow> lists \<times> session" where
  "record_ticker ticker average_annual_return beta = (\<lambda>(ls, s).
     (let ls1 =
            (case average_annual_return of
               Some annual_return \<Rightarrow>
                 ls\<lparr>individual_returns := individual_returns ls @ [annual_return],
                    valid_tickers := valid_tickers ls @ [ticker]\<rparr>
             | None \<Rightarrow> ls)
      in case beta of
           Some b \<Rightarrow>
             if ticker \<noteq> ''SPY'' then
               (ls1\<lparr>individual_betas := individual_betas ls1 @ [b]\<rparr>,
                st_write (Beta_line ticker b) s)
             else (ls1, st_write Spy_line s)
         | None \<Rightarrow> (ls1, st_write Blank_line s)))"

fun process_tickers ::
  "env \<Rightarrow> string \<Rightarrow> string list \<Rightarrow> lists \<Rightarrow> session \<Rightarrow> (exn + lists) \<times> session" where
  "process_tickers w period [] ls s = (Inr ls, s)"
| "process_tickers w period (ticker # rest) ls s =
     (case calculate_average_annual_return w period ticker s of
        (Inl e, s1) \<Rightarrow> (Inl e, s1)
      | (Inr average_annual_return, s1) \<Rightarrow>
          (case calculate_beta w period ticker s1 of
             (Inl e, s2) \<Rightarrow> (Inl e, s2)
           | (Inr beta, s2) \<Rightarrow>
               (case record_ticker ticker average_annual_return beta (ls, s2) of
                  (ls', s3) \<Rightarrow> process_tickers w period rest ls' s3)))"

definition start :: session where
  "start = \<lparr>fetches = [], errors = [], page = []\<rparr>"

definition no_lists :: lists where
  "no_lists = \<lparr>valid_tickers = [], individual_returns = [], individual_betas = []\<rparr>"

text \<open>One run of the script: the selected period, the text inputs, the page it leaves.\<close>

definition app :: "env \<Rightarrow> string \<Rightarrow> string list \<Rightarrow> (exn + unit) \<times> session" where
  "app w selected_time_period inputs =
     (let tickers = collect_tickers inputs
      in case process_tickers w selected_time_period tickers no_lists start of
           (Inl e, s) \<Rightarrow> (Inl e, s)
         | (Inr ls, s) \<Rightarrow>
             if individual_betas ls \<noteq> [] \<or> ''SPY'' \<in> set (valid_tickers ls) then
               visualize_returns w selected_time_period (valid_tickers ls) s
             else (Inr (), st_write No_valid_tickers s))"

section \<open>Notions of the specification\<close>

text \<open>A price the logarithm is defined for: finite and above zero.\<close>

fun positive :: "float64 \<Rightarrow> bool" where
  "positive (Fin a) = (0 < a)"
| "positive _ = False"

definition positive_prices :: "series \<Rightarrow> bool" where
  "positive_prices s = list_all (\<lambda>(d, x). positive x) s"

definition dates :: "series \<Rightarrow> date set" where
  "dates s = fst ` set s"


text \<open>The returns take at least two values: the regression line is determined.\<close>

definition varying :: "series \<Rightarrow> bool" where
  "varying r = (\<exists>a \<in> set (map snd r). \<exists>b \<in> set (map snd r). a \<noteq> b)"

text \<open>
  What each ticker of the loop gets, in order: its average annual return and its beta,
  computed one after the other on the session the tickers before have left.
\<close>

fun outcomes ::
  "env \<Rightarrow> string \<Rightarrow> string list \<Rightarrow> session \<Rightarrow> (string \<times> float64 option \<times> float64 option) list" where
  "outcomes w period [] s = []"
| "outcomes w period (ticker # rest) s =
     (case calculate_average_annual_return w period ticker s of
        (Inl e, s1) \<Rightarrow> []
      | (Inr r, s1) \<Rightarrow>
          (case calculate_beta w period ticker s1 of
             (Inl e, s2) \<Rightarrow> []
           | (Inr b, s2) \<Rightarrow>
               (ticker, r, b) #
               outcomes w period rest (snd (record_ticker ticker r b (no_lists, s2)))))"

text \<open>The chart condition in the words of the tickers' outcomes.\<close>

definition charted :: "(string \<times> float64 option \<times> float64 option) list \<Rightarrow> bool" where
  "charted os =
     list_ex (\<lambda>(t, r, b). if t = ''SPY'' then r \<noteq> None else b \<noteq> None) os"

section \<open>Example data\<close>

definition price_frame :: "series \<Rightarrow> dataframe" where
  "price_frame s =
     \<lparr>index = map fst s, columns = [(''Close'', map snd s), (''Adj Close'', map snd s)]\<rparr>"

definition aapl_prices :: series where
  "aapl_prices = [(0, Fin 1), (1, Fin (exp 2)), (2, Fin (exp 6))]"

definition spy_prices :: series where
  "spy_prices = [(0, Fin 1), (1, Fin (exp 1)), (2, Fin (exp 3))]"

definition cash_prices :: series where
  "cash_prices = [(0, Fin 5), (1, Fin 5), (2, Fin 5)]"

definition two_days :: series where
  "two_days = [(0, Fin 1), (1, Fin (exp 1))]"

text \<open>
  A data source with three days of SPY, of AAPL (its returns are twice those of SPY)
  and of CASH (a constant price), a ticker NEW listed on the last day only, a ticker OLD
  whose frame has no adjusted close, an unknown ticker with an empty frame, and an error
  for anything else.
\<close>

definition example_env :: env where
  "example_env =
     \<lparr>download = (\<lambda>n ticker period.
        if ticker = ''AAPL'' then Returns (price_frame aapl_prices)
        else if ticker = ''SPY'' then Returns (price_frame spy_prices)
        else if ticker = ''CASH'' then Returns (price_frame cash_prices)
        else if ticker = ''NEW'' then Returns (price_frame [(2, Fin 10)])
        else if ticker = ''OLD'' then
          Returns \<lparr>index = [0, 1], columns = [(''Close'', [Fin 1, Fin 2])]\<rparr>
        else if ticker = ''ZZZZZZ'' then Returns (price_frame [])
        else Raises ProviderError),
      lstsq_nonfinite = (\<lambda>x y. Inl LinAlgError)\<rparr>"

text \<open>A data source that is out of reach.\<close>

definition offline_env :: env where
  "offline_env =
     \<lparr>download = (\<lambda>n ticker period. Raises ProviderError),
      lstsq_nonfinite = (\<lambda>x y. Inl LinAlgError)\<rparr>"

section \<open>Log returns and means\<close>

lemma fdiv_NaN_right: "fdiv x NaN = NaN"
  by (cases x) simp_all

lemma length_shift1: "length (shift1 s) = length s"
  by (cases s) (simp_all add: shift1_def)

lemma nth_shift1:
  "i < length s \<Longrightarrow> shift1 s ! i = (fst (s ! i), if i = 0 then NaN else snd (s ! (i - 1)))"
  by (cases s) (auto simp: shift1_def nth_Cons' nth_butlast)

lemma raw_returns:
  "series_log (series_div s (shift1 s)) =
     map (\<lambda>i. (fst (s ! i), flog (fdiv (snd (s ! i)) (if i = 0 then NaN else snd (s ! (i - 1))))))
       [0..<length s]"
  by (rule nth_equalityI)
     (simp_all add: series_log_def series_div_def length_shift1 nth_shift1 split_beta)

lemma log_returns_nth:
  "log_returns s =
     dropna (map (\<lambda>i. (fst (s ! i), flog (fdiv (snd (s ! i)) (snd (s ! (i - 1)))))) [1..<length s])"
proof (cases "length s")
  case 0
  then show ?thesis by (simp add: log_returns_def raw_returns dropna_def)
next
  case (Suc n)
  let ?f = "\<lambda>i. (fst (s ! i), flog (fdiv (snd (s ! i)) (if i = 0 then NaN else snd (s ! (i - 1)))))"
  let ?g = "\<lambda>i. (fst (s ! i), flog (fdiv (snd (s ! i)) (snd (s ! (i - 1)))))"
  have upt: "[0..<length s] = 0 # [1..<length s]"
    using Suc by (simp add: upt_conv_Cons)
  have same: "map ?f [1..<length s] = map ?g [1..<length s]"
    by (rule map_cong [OF refl]) simp
  have "log_returns s = dropna (?f 0 # map ?f [1..<length s])"
    unfolding log_returns_def raw_returns upt by simp
  also have "\<dots> = dropna (map ?f [1..<length s])"
    by (simp add: dropna_def fdiv_NaN_right)
  also have "\<dots> = dropna (map ?g [1..<length s])"
    unfolding same ..
  finally show ?thesis .
qed

lemma log_returns_positive:
  assumes "map snd s = map Fin p" and "\<forall>a\<in>set p. 0 < a"
  shows "log_returns s = map (\<lambda>i. (fst (s ! i), Fin (ln (p ! i / p ! (i - 1))))) [1..<length s]"
proof -
  have len: "length p = length s"
    using assms(1) by (metis length_map)
  have val: "snd (s ! i) = Fin (p ! i)" and pos: "0 < p ! i" if "i < length s" for i
  proof -
    have "map snd s ! i = map Fin p ! i" using assms(1) by simp
    then show "snd (s ! i) = Fin (p ! i)" using that len by simp
    show "0 < p ! i" using assms(2) that len by simp
  qed
  have "map (\<lambda>i. (fst (s ! i), flog (fdiv (snd (s ! i)) (snd (s ! (i - 1)))))) [1..<length s] =
        map (\<lambda>i. (fst (s ! i), Fin (ln (p ! i / p ! (i - 1))))) [1..<length s]"
  proof (rule map_cong [OF refl])
    fix i assume "i \<in> set [1..<length s]"
    then have i: "i < length s" "i - 1 < length s" "0 < i" by auto
    have "p ! (i - 1) \<noteq> 0" "\<not> p ! i / p ! (i - 1) < 0" "p ! i / p ! (i - 1) \<noteq> 0"
      using pos [OF i(1)] pos [OF i(2)] by (simp_all add: not_less divide_nonneg_pos less_imp_le)
    then show "(fst (s ! i), flog (fdiv (snd (s ! i)) (snd (s ! (i - 1))))) =
               (fst (s ! i), Fin (ln (p ! i / p ! (i - 1))))"
      using val [OF i(1)] val [OF i(2)] by simp
  qed
  then show ?thesis
    by (simp add: log_returns_nth dropna_def filter_map o_def)
qed

lemma foldl_fadd_Fin: "foldl fadd (Fin a) (map Fin xs) = Fin (a + sum_list xs)"
  by (induction xs arbitrary: a) (simp_all add: add.assoc)

lemma series_mean_Fin:
  assumes "map snd r = map Fin xs" and "xs \<noteq> []"
  shows "series_mean r = Fin (mean xs)"
proof -
  have "filter (\<lambda>x. x \<noteq> NaN) (map Fin xs) = map Fin xs"
    by (induction xs) simp_all
  moreover have "real (length xs) \<noteq> 0" using assms(2) by simp
  ultimately show ?thesis
    using assms by (simp add: series_mean_def fsum_def foldl_fadd_Fin mean_def)
qed

lemma series_mean_Nil: "series_mean [] = NaN"
  by (simp add: series_mean_def)

lemma log_returns_short: "length s < 2 \<Longrightarrow> log_returns s = []"
  by (simp add: log_returns_nth dropna_def)

lemma log_returns_constant:
  assumes "map snd s = replicate n (Fin c)" and "0 < c"
  shows "map snd (log_returns s) = map Fin (replicate (n - 1) 0)"
proof -
  have n: "length s = n"
    using assms(1) by (metis length_map length_replicate)
  have "log_returns s =
      map (\<lambda>i. (fst (s ! i), Fin (ln (replicate n c ! i / replicate n c ! (i - 1))))) [1..<length s]"
    using assms by (intro log_returns_positive) (simp_all add: map_replicate)
  also have "\<dots> = map (\<lambda>i. (fst (s ! i), Fin 0)) [1..<length s]"
  proof (rule map_cong [OF refl])
    fix i assume "i \<in> set [1..<length s]"
    then have "i < n" "i - 1 < n" using n by auto
    then show "(fst (s ! i), Fin (ln (replicate n c ! i / replicate n c ! (i - 1)))) =
        (fst (s ! i), Fin 0)"
      using assms(2) by (simp del: One_nat_def)
  qed
  finally show ?thesis
    using n by (simp add: o_def map_replicate_const)
qed

lemma mean_zeros: "mean (replicate k 0) = 0"
  by (simp add: mean_def sum_list_replicate)

lemma cross_sum_zeros:
  "(\<Sum>(a, b)\<leftarrow>zip xs (replicate k 0). (a - m) * b) = (0::real)"
  by (induction xs arbitrary: k) (simp, case_tac k, simp_all)

section \<open>The inner join\<close>

lemma pd_merge_Nil [simp]: "pd_merge [] r = []"
  by (simp add: pd_merge_def)

lemma pd_merge_Cons:
  "pd_merge ((d, x) # l) r =
     map (\<lambda>(_, y). (d, x, y)) (filter (\<lambda>(d', _). d' = d) r) @ pd_merge l r"
  by (simp add: pd_merge_def)

lemma no_rows: "d \<notin> dates r \<Longrightarrow> filter (\<lambda>(d', _). d' = d) r = []"
  by (induction r) (auto simp: dates_def)

lemma set_pd_merge:
  "set (pd_merge l r) = {(d, x, y). (d, x) \<in> set l \<and> (d, y) \<in> set r}"
  by (induction l) (auto simp: pd_merge_Cons)






text \<open>With one row a date at most, the merge has one row for every shared date.\<close>

lemma filter_key_distinct:
  "distinct (map fst r) \<Longrightarrow>
     length (filter (\<lambda>(d', _). d' = d) r) = (if d \<in> dates r then 1 else 0)"
proof (induction r)
  case Nil
  show ?case by (simp add: dates_def)
next
  case (Cons row r)
  obtain d' y where row: "row = (d', y)" by (cases row)
  show ?case
  proof (cases "d' = d")
    case True
    then have "d \<notin> dates r" using Cons.prems by (simp add: row dates_def)
    then have "filter (\<lambda>(d', _). d' = d) r = []"
      by (rule no_rows)
    then show ?thesis using True by (simp add: row dates_def)
  next
    case False
    then show ?thesis using Cons by (simp add: row dates_def)
  qed
qed

lemma length_pd_merge:
  "distinct (map fst r) \<Longrightarrow> length (pd_merge l r) = length (filter (\<lambda>d. d \<in> dates r) (map fst l))"
  by (induction l) (auto simp: pd_merge_Cons filter_key_distinct)

lemma length_pd_merge_card:
  assumes "distinct (map fst l)" and "distinct (map fst r)"
  shows "length (pd_merge l r) = card (dates l \<inter> dates r)"
proof -
  have "distinct (filter (\<lambda>d. d \<in> dates r) (map fst l))"
    using assms(1) by (rule distinct_filter)
  then have "card (set (filter (\<lambda>d. d \<in> dates r) (map fst l))) =
      length (filter (\<lambda>d. d \<in> dates r) (map fst l))"
    by (rule distinct_card)
  moreover have "set (filter (\<lambda>d. d \<in> dates r) (map fst l)) = dates l \<inter> dates r"
    by (auto simp: dates_def)
  ultimately show ?thesis
    using assms(2) by (simp add: length_pd_merge)
qed

lemma regression_few_rows:
  "length (pd_merge stock_data spy_data) < 2 \<Longrightarrow> regression w stock_data spy_data = Inl TypeError"
  by (simp add: regression_def Let_def polyfit1_def log_returns_short left_column_def
      right_column_def)

section \<open>The least squares line\<close>

lemma positive_prices_values:
  assumes "positive_prices s"
  obtains p where "map snd s = map Fin p" and "\<forall>a\<in>set p. 0 < a"
proof
  have "\<forall>row\<in>set s. \<exists>a. snd row = Fin a \<and> 0 < a"
  proof
    fix row assume "row \<in> set s"
    then have "positive (snd row)"
      using assms by (auto simp: positive_prices_def list_all_iff)
    then show "\<exists>a. snd row = Fin a \<and> 0 < a"
      by (cases "snd row") simp_all
  qed
  then show "map snd s = map Fin (map (the_fin \<circ> snd) s)"
    and "\<forall>a\<in>set (map (the_fin \<circ> snd) s). 0 < a"
    by auto
qed

lemma log_returns_finite:
  assumes "positive_prices s"
  obtains xs where "map snd (log_returns s) = map Fin xs" and "length xs = length s - 1"
proof -
  obtain p where p: "map snd s = map Fin p" "\<forall>a\<in>set p. 0 < a"
    using assms by (rule positive_prices_values)
  have "log_returns s = map (\<lambda>i. (fst (s ! i), Fin (ln (p ! i / p ! (i - 1))))) [1..<length s]"
    using p by (rule log_returns_positive)
  then have "map snd (log_returns s) = map Fin (map (\<lambda>i. ln (p ! i / p ! (i - 1))) [1..<length s])"
    by (simp add: o_def)
  then show thesis
    by (rule that) simp
qed

lemma sum_squares_varying:
  fixes xs :: "real list"
  assumes "a \<in> set xs" and "b \<in> set xs" and "a \<noteq> b"
  shows "(\<Sum>x\<leftarrow>xs. (x - m)\<^sup>2) \<noteq> 0"
proof
  assume "(\<Sum>x\<leftarrow>xs. (x - m)\<^sup>2) = 0"
  moreover have "\<forall>v\<in>set (map (\<lambda>x. (x - m)\<^sup>2) xs). 0 \<le> v" by auto
  ultimately have "\<forall>v\<in>set (map (\<lambda>x. (x - m)\<^sup>2) xs). v = 0"
    by (simp only: sum_list_nonneg_eq_0_iff)
  then have all: "\<forall>v\<in>set xs. v = m" by simp
  have "a = m" using all assms(1) by blast
  moreover have "b = m" using all assms(2) by blast
  ultimately show False using assms(3) by simp
qed

lemma polyfit1_ols:
  assumes "length xs = length ys" and "(\<Sum>a\<leftarrow>xs. (a - mean xs)\<^sup>2) \<noteq> 0"
  shows "polyfit1 nf (map Fin xs) (map Fin ys) =
     Inr (Fin ((\<Sum>(a, b)\<leftarrow>zip xs ys. (a - mean xs) * (b - mean ys)) / (\<Sum>a\<leftarrow>xs. (a - mean xs)\<^sup>2)),
          Fin (mean ys -
               (\<Sum>(a, b)\<leftarrow>zip xs ys. (a - mean xs) * (b - mean ys)) / (\<Sum>a\<leftarrow>xs. (a - mean xs)\<^sup>2) *
               mean xs))"
proof -
  have "xs \<noteq> []" using assms(2) by auto
  moreover have "list_all is_finite (map Fin zs)" "map the_fin (map Fin zs) = zs" for zs
    by (induction zs) simp_all
  ultimately show ?thesis
    using assms by (simp add: polyfit1_def Let_def)
qed

lemma varying_Fin:
  assumes "varying r" and "map snd r = map Fin xs"
  obtains a b where "a \<in> set xs" and "b \<in> set xs" and "a \<noteq> b"
  using assms unfolding varying_def by auto


lemma calculate_beta_fitted:
  assumes "ticker \<noteq> ''SPY''"
    and "get_historical_data w period ticker s = (Inr (Some stock_data), s1)"
    and "download w (length (fetches s1)) ''SPY'' period = Returns df"
    and "df_column df ''Adj Close'' = Some spy_data"
    and "spy_data \<noteq> []"
    and "regression w stock_data spy_data = Inr (slope, intercept)"
  shows "calculate_beta w period ticker s =
     (Inr (Some slope), s1\<lparr>fetches := fetches s1 @ [(''SPY'', period)]\<rparr>)"
  using assms by (simp add: calculate_beta_def calculate_beta_body_def yf_download_def)

lemma regression_constant_stock:
  assumes "map snd stock_data = replicate n (Fin c)" and "0 < c"
    and "positive_prices spy_data"
    and "varying (log_returns (right_column (pd_merge stock_data spy_data)))"
  shows "regression w stock_data spy_data = Inr (Fin 0, Fin 0)"
proof -
  let ?m = "pd_merge stock_data spy_data"
  have rows: "x = Fin c \<and> positive y" if "(d, x, y) \<in> set ?m" for d x y
  proof -
    from that have "(d, x) \<in> set stock_data" "(d, y) \<in> set spy_data"
      by (simp_all add: set_pd_merge)
    then have "x \<in> set (map snd stock_data)" "positive y"
      using assms(3) by (force, auto simp: positive_prices_def list_all_iff)
    then show ?thesis using assms(1) by simp
  qed
  have "map snd (left_column ?m) = replicate (length ?m) (Fin c)"
    using rows by (auto simp: left_column_def map_replicate_const [symmetric] intro!: map_cong)
  then have ys: "map snd (log_returns (left_column ?m)) = map Fin (replicate (length ?m - 1) 0)"
    using assms(2) by (rule log_returns_constant)
  have "positive_prices (right_column ?m)"
    using rows by (auto simp: right_column_def positive_prices_def list_all_iff)
  then obtain xs where xs: "map snd (log_returns (right_column ?m)) = map Fin xs"
    and len: "length xs = length (right_column ?m) - 1"
    by (rule log_returns_finite)
  obtain a b where "a \<in> set xs" "b \<in> set xs" "a \<noteq> b"
    using assms(4) xs by (rule varying_Fin)
  then have sxx: "(\<Sum>a\<leftarrow>xs. (a - mean xs)\<^sup>2) \<noteq> 0"
    by (rule sum_squares_varying)
  have "length xs = length (replicate (length ?m - 1) (0::real))"
    using len by (simp add: right_column_def)
  then have "polyfit1 (lstsq_nonfinite w) (map Fin xs) (map Fin (replicate (length ?m - 1) 0)) =
      Inr (Fin 0, Fin 0)"
    using sxx by (simp add: polyfit1_ols mean_zeros cross_sum_zeros del: replicate.simps map_replicate)
  then show ?thesis
    by (simp add: regression_def xs ys)
qed

section \<open>The example data source\<close>

lemma df_column_price_frame: "df_column (price_frame ser) ''Adj Close'' = Some ser"
  by (simp add: df_column_def price_frame_def zip_map_fst_snd)

lemma df_empty_price_frame: "df_empty (price_frame ser) = (ser = [])"
  by (simp add: df_empty_def price_frame_def)

lemma fetch_price_frame:
  assumes "ticker \<noteq> []"
    and "download w (length (fetches s)) ticker period = Returns (price_frame ser)"
    and "ser \<noteq> []"
  shows "get_historical_data w period ticker s =
     (Inr (Some ser), s\<lparr>fetches := fetches s @ [(ticker, period)]\<rparr>)"
  using assms
  by (simp add: get_historical_data_def get_historical_data_body_def yf_download_def
      df_column_price_frame df_empty_price_frame)

lemma example_downloads:
  "download example_env k ''AAPL'' period = Returns (price_frame aapl_prices)"
  "download example_env k ''SPY'' period = Returns (price_frame spy_prices)"
  "download example_env k ''CASH'' period = Returns (price_frame cash_prices)"
  "download example_env k ''NEW'' period = Returns (price_frame [(2, Fin 10)])"
  by (simp_all add: example_env_def)

lemma example_fetches:
  "get_historical_data example_env period ''AAPL'' s =
     (Inr (Some aapl_prices), s\<lparr>fetches := fetches s @ [(''AAPL'', period)]\<rparr>)"
  "get_historical_data example_env period ''CASH'' s =
     (Inr (Some cash_prices), s\<lparr>fetches := fetches s @ [(''CASH'', period)]\<rparr>)"
  "get_historical_data example_env period ''NEW'' s =
     (Inr (Some [(2, Fin 10)]), s\<lparr>fetches := fetches s @ [(''NEW'', period)]\<rparr>)"
  by (rule fetch_price_frame; simp add: example_downloads aapl_prices_def cash_prices_def)+

lemma exp_ratio: "exp a / exp b = exp (a - (b::real))"
  by (simp add: exp_diff)

lemma ln_exp_ratio: "ln (exp a / exp b) = a - (b::real)"
  by (simp add: exp_ratio)

lemma example_log_returns:
  "log_returns aapl_prices = [(1, Fin 2), (2, Fin 4)]"
  "log_returns spy_prices = [(1, Fin 1), (2, Fin 2)]"
  "log_returns two_days = [(1, Fin 1)]"
  by (simp_all add: log_returns_def shift1_def series_div_def series_log_def dropna_def
      aapl_prices_def spy_prices_def two_days_def exp_ratio)

lemma example_new:
  "get_historical_data example_env ''1y'' ''NEW'' start =
     (Inr (Some [(2, Fin 10)]), start\<lparr>fetches := [(''NEW'', ''1y'')]\<rparr>)"
  by (simp add: get_historical_data_def get_historical_data_body_def yf_download_def
      example_env_def price_frame_def df_empty_def df_column_def start_def)

lemma example_merges:
  "pd_merge cash_prices spy_prices =
     [(0, Fin 5, Fin 1), (1, Fin 5, Fin (exp 1)), (2, Fin 5, Fin (exp 3))]"
  "pd_merge aapl_prices spy_prices =
     [(0, Fin 1, Fin 1), (1, Fin (exp 2), Fin (exp 1)), (2, Fin (exp 6), Fin (exp 3))]"
  by (simp_all add: pd_merge_def cash_prices_def spy_prices_def aapl_prices_def)

lemma example_columns:
  "right_column (pd_merge cash_prices spy_prices) = spy_prices"
  "right_column (pd_merge aapl_prices spy_prices) = spy_prices"
  "left_column (pd_merge aapl_prices spy_prices) = aapl_prices"
  unfolding example_merges right_column_def left_column_def
  by (simp_all add: spy_prices_def aapl_prices_def)

section \<open>Requests and page of a run\<close>

lemma get_historical_data_effect:
  obtains r s' where "get_historical_data w period ticker s = (Inr r, s')"
    and "fetches s' = fetches s @ (if ticker = [] then [] else [(ticker, period)])"
    and "page s' = page s"
  by (cases "download w (length (fetches s)) ticker period";
      cases "get_historical_data w period ticker s")
     (auto simp: get_historical_data_def get_historical_data_body_def yf_download_def
       st_error_def split: if_splits option.splits)

lemma calculate_average_annual_return_effect:
  obtains r s' where "calculate_average_annual_return w period ticker s = (Inr r, s')"
    and "fetches s' = fetches s @ (if ticker = [] then [] else [(ticker, period)])"
    and "page s' = page s"
proof -
  obtain r s' where "get_historical_data w period ticker s = (Inr r, s')"
    and "fetches s' = fetches s @ (if ticker = [] then [] else [(ticker, period)])"
    and "page s' = page s"
    by (rule get_historical_data_effect)
  then show thesis
    by (cases r) (auto simp: calculate_average_annual_return_def Let_def intro: that)
qed


lemma calculate_beta_never_raises:
  obtains r s' where "calculate_beta w period ticker s = (Inr r, s')"
  by (cases "calculate_beta w period ticker s")
     (auto simp: calculate_beta_def split: prod.splits sum.splits)

lemma add_traces_effect:
  "\<exists>fig' s'. add_traces w period i tickers fig s = (Inr fig', s') \<and>
     fetches s' = fetches s @ map (\<lambda>t. (t, period)) (filter (\<lambda>t. t \<noteq> []) tickers) \<and>
     page s' = page s \<and>
     set (map trace_name fig') \<subseteq> set (map trace_name fig) \<union> set tickers"
proof (induction tickers arbitrary: i fig s)
  case Nil
  show ?case by simp
next
  case (Cons t ts)
  obtain r s1 where g: "get_historical_data w period t s = (Inr r, s1)"
    and f1: "fetches s1 = fetches s @ (if t = [] then [] else [(t, period)])"
    and p1: "page s1 = page s"
    by (rule get_historical_data_effect)
  show ?case
  proof (cases r)
    case None
    obtain fig' s' where *: "add_traces w period (Suc i) ts fig s1 = (Inr fig', s') \<and>
        fetches s' = fetches s1 @ map (\<lambda>t. (t, period)) (filter (\<lambda>t. t \<noteq> []) ts) \<and>
        page s' = page s1 \<and>
        set (map trace_name fig') \<subseteq> set (map trace_name fig) \<union> set ts"
      using Cons.IH [of "Suc i" fig s1] by blast
    show ?thesis
      by (intro exI [of _ fig'] exI [of _ s']) (use * g f1 p1 None in auto)
  next
    case (Some data)
    let ?fig = "fig @ [\<lparr>trace_name = t,
        trace_color = line_colors ! (i mod length line_colors), trace_data = data\<rparr>]"
    obtain fig' s' where *: "add_traces w period (Suc i) ts ?fig s1 = (Inr fig', s') \<and>
        fetches s' = fetches s1 @ map (\<lambda>t. (t, period)) (filter (\<lambda>t. t \<noteq> []) ts) \<and>
        page s' = page s1 \<and>
        set (map trace_name fig') \<subseteq> set (map trace_name ?fig) \<union> set ts"
      using Cons.IH [of "Suc i" ?fig s1] by blast
    show ?thesis
      by (intro exI [of _ fig'] exI [of _ s']) (use * g f1 p1 Some in auto)
  qed
qed

lemma visualize_returns_effect:
  obtains fig s' where "visualize_returns w period tickers s = (Inr (), st_write (Chart fig) s')"
    and "fetches s' = fetches s @ map (\<lambda>t. (t, period)) (filter (\<lambda>t. t \<noteq> []) tickers)"
    and "page s' = page s"
    and "set (map trace_name fig) \<subseteq> set tickers"
proof -
  obtain fig s' where *: "add_traces w period 0 tickers [] s = (Inr fig, s') \<and>
      fetches s' = fetches s @ map (\<lambda>t. (t, period)) (filter (\<lambda>t. t \<noteq> []) tickers) \<and>
      page s' = page s \<and>
      set (map trace_name fig) \<subseteq> set (map trace_name ([]::trace list)) \<union> set tickers"
    using add_traces_effect [of w period 0 tickers "[]" s] by blast
  show thesis
    by (rule that [of fig s']) (use * in \<open>simp_all add: visualize_returns_def\<close>)
qed

lemma record_ticker_effect:
  obtains ls' s' where "record_ticker ticker r b (ls, s) = (ls', s')"
    and "fetches s' = fetches s"
    and "valid_tickers ls' = valid_tickers ls @ (if r = None then [] else [ticker])"
    and "individual_betas ls' =
         individual_betas ls @ (if ticker \<noteq> ''SPY'' then (case b of None \<Rightarrow> [] | Some x \<Rightarrow> [x]) else [])"
    and "s' = snd (record_ticker ticker r b (no_lists, s))"
  by (cases "record_ticker ticker r b (ls, s)")
     (auto simp: record_ticker_def Let_def st_write_def split: option.splits if_splits)

lemma polyfit_example:
  "polyfit1 nf [Fin 1, Fin 2] [Fin 2, Fin 4] = Inr (Fin 2, Fin 0)"
  by (simp add: polyfit1_def mean_def power2_eq_square)

lemma example_regression: "regression example_env aapl_prices spy_prices = Inr (Fin 2, Fin 0)"
  by (simp add: regression_def example_columns example_log_returns polyfit_example)

lemma example_returns:
  "calculate_average_annual_return example_env period ''AAPL'' s =
     (Inr (Some (Fin 75600)), s\<lparr>fetches := fetches s @ [(''AAPL'', period)]\<rparr>)"
  by (simp add: calculate_average_annual_return_def example_fetches example_log_returns
      series_mean_def fsum_def)

lemma example_beta:
  "calculate_beta example_env period ''AAPL'' s =
     (Inr (Some (Fin 2)),
      s\<lparr>fetches := fetches s @ [(''AAPL'', period), (''SPY'', period)]\<rparr>)"
proof -
  have "spy_prices \<noteq> []" by (simp add: spy_prices_def)
  then show ?thesis
    using calculate_beta_fitted [of "''AAPL''" example_env period s aapl_prices
      "s\<lparr>fetches := fetches s @ [(''AAPL'', period)]\<rparr>" "price_frame spy_prices" spy_prices
      "Fin 2" "Fin 0"]
    by (simp add: example_fetches example_downloads df_column_price_frame example_regression)
qed

lemma example_run:
  "app example_env ''1y'' [''AAPL'', ''''] =
     (Inr (),
      \<lparr>fetches = [(''AAPL'', ''1y''), (''AAPL'', ''1y''), (''SPY'', ''1y''), (''AAPL'', ''1y'')],
       errors = [],
       page = [Beta_line ''AAPL'' (Fin 2),
               Chart [\<lparr>trace_name = ''AAPL'', trace_color = ''blue'', trace_data = aapl_prices\<rparr>]]\<rparr>)"
  by (simp add: app_def example_returns example_beta record_ticker_def no_lists_def start_def
      st_write_def visualize_returns_def example_fetches line_colors_def)

lemma process_tickers_outcomes:
  "\<exists>ls' s'. process_tickers w period tickers ls s = (Inr ls', s') \<and>
     valid_tickers ls' =
       valid_tickers ls @ map fst (filter (\<lambda>(t, r, b). r \<noteq> None) (outcomes w period tickers s)) \<and>
     (individual_betas ls' \<noteq> [] \<longleftrightarrow>
        individual_betas ls \<noteq> [] \<or>
        list_ex (\<lambda>(t, r, b). t \<noteq> ''SPY'' \<and> b \<noteq> None) (outcomes w period tickers s))"
proof (induction tickers arbitrary: ls s)
  case Nil
  show ?case by simp
next
  case (Cons t ts)
  obtain r s1 where avg: "calculate_average_annual_return w period t s = (Inr r, s1)"
    by (rule calculate_average_annual_return_effect)
  obtain b s2 where beta: "calculate_beta w period t s1 = (Inr b, s2)"
    by (rule calculate_beta_never_raises)
  obtain ls1 s3 where rec: "record_ticker t r b (ls, s2) = (ls1, s3)"
    and valid: "valid_tickers ls1 = valid_tickers ls @ (if r = None then [] else [t])"
    and betas: "individual_betas ls1 =
      individual_betas ls @ (if t \<noteq> ''SPY'' then (case b of None \<Rightarrow> [] | Some x \<Rightarrow> [x]) else [])"
    and s3: "s3 = snd (record_ticker t r b (no_lists, s2))"
    by (rule record_ticker_effect)
  obtain ls' s' where *: "process_tickers w period ts ls1 s3 = (Inr ls', s') \<and>
     valid_tickers ls' =
       valid_tickers ls1 @ map fst (filter (\<lambda>(t, r, b). r \<noteq> None) (outcomes w period ts s3)) \<and>
     (individual_betas ls' \<noteq> [] \<longleftrightarrow>
        individual_betas ls1 \<noteq> [] \<or>
        list_ex (\<lambda>(t, r, b). t \<noteq> ''SPY'' \<and> b \<noteq> None) (outcomes w period ts s3))"
    using Cons.IH [of ls1 s3] by blast
  have os: "outcomes w period (t # ts) s = (t, r, b) # outcomes w period ts s3"
    using avg beta s3 by simp
  have pt: "process_tickers w period (t # ts) ls s = process_tickers w period ts ls1 s3"
    using avg beta rec by simp
  show ?case
    unfolding os pt
    by (intro exI [of _ ls'] exI [of _ s'])
       (use * valid betas in \<open>auto split: option.splits\<close>)
qed

lemma charted_iff:
  "charted os \<longleftrightarrow>
     list_ex (\<lambda>(t, r, b). t \<noteq> ''SPY'' \<and> b \<noteq> None) os \<or>
     ''SPY'' \<in> set (map fst (filter (\<lambda>(t, r, b). r \<noteq> None) os))"
  by (induction os) (auto simp: charted_def)

lemma offline_fetch:
  "ticker \<noteq> [] \<Longrightarrow> get_historical_data offline_env period ticker s =
     (Inr None, s\<lparr>fetches := fetches s @ [(ticker, period)],
                 errors := errors s @ [Fetch_failed ticker]\<rparr>)"
  by (simp add: get_historical_data_def get_historical_data_body_def yf_download_def
      offline_env_def st_error_def)

section \<open>The claims\<close>

subsection \<open>The data fetcher\<close>

text \<open>
  Claim C4. \<^verbatim>\<open>get_historical_data\<close> never lets an exception escape. For the empty
  ticker it returns \<^verbatim>\<open>None\<close> and leaves the session as it was (no request, no message).
  For any other ticker it makes one request and writes nothing on the page; it returns
  \<^verbatim>\<open>None\<close> with a message naming the ticker when the request raises, when the frame is
  empty and when the frame has no adjusted close, and returns the adjusted close series
  without a message in the one remaining case.
\<close>

theorem get_historical_data_cases:
  "(let r = get_historical_data w period ticker s;
        resp = download w (length (fetches s)) ticker period
    in (\<forall>e. fst r \<noteq> Inl e) \<and>
       (ticker = [] \<longrightarrow> r = (Inr None, s)) \<and>
       (ticker \<noteq> [] \<longrightarrow>
          fetches (snd r) = fetches s @ [(ticker, period)] \<and> page (snd r) = page s) \<and>
       (ticker \<noteq> [] \<and> (\<exists>e. resp = Raises e) \<longrightarrow>
          fst r = Inr None \<and> errors (snd r) = errors s @ [Fetch_failed ticker]) \<and>
       (\<forall>df. ticker \<noteq> [] \<and> resp = Returns df \<and> df_empty df \<longrightarrow>
          fst r = Inr None \<and> errors (snd r) = errors s @ [No_data ticker]) \<and>
       (\<forall>df. ticker \<noteq> [] \<and> resp = Returns df \<and> \<not> df_empty df \<and>
             df_column df ''Adj Close'' = None \<longrightarrow>
          fst r = Inr None \<and> errors (snd r) = errors s @ [Not_available ticker]) \<and>
       (\<forall>df adj. ticker \<noteq> [] \<and> resp = Returns df \<and> \<not> df_empty df \<and>
             df_column df ''Adj Close'' = Some adj \<longrightarrow>
          fst r = Inr (Some adj) \<and> errors (snd r) = errors s))"
  by (auto simp: Let_def get_historical_data_def get_historical_data_body_def yf_download_def
      st_error_def split: response.splits option.splits)

theorem get_historical_data_cases_witness:
  "get_historical_data example_env ''1y'' [] start = (Inr None, start) \<and>
   fst (get_historical_data example_env ''1y'' ''NEW'' start) = Inr (Some [(2, Fin 10)]) \<and>
   errors (snd (get_historical_data example_env ''1y'' ''NEW'' start)) = [] \<and>
   fetches (snd (get_historical_data example_env ''1y'' ''NEW'' start)) = [(''NEW'', ''1y'')] \<and>
   fst (get_historical_data example_env ''1y'' ''OLD'' start) = Inr None \<and>
   errors (snd (get_historical_data example_env ''1y'' ''OLD'' start)) = [Not_available ''OLD''] \<and>
   fst (get_historical_data example_env ''1y'' ''ZZZZZZ'' start) = Inr None \<and>
   errors (snd (get_historical_data example_env ''1y'' ''ZZZZZZ'' start)) = [No_data ''ZZZZZZ''] \<and>
   fst (get_historical_data offline_env ''1y'' ''AAPL'' start) = Inr None \<and>
   errors (snd (get_historical_data offline_env ''1y'' ''AAPL'' start)) = [Fetch_failed ''AAPL'']"
proof -
  have new: "download example_env (length (fetches start)) ''NEW'' ''1y'' =
      Returns (price_frame [(2, Fin 10)])"
    and old: "download example_env (length (fetches start)) ''OLD'' ''1y'' =
      Returns \<lparr>index = [0, 1], columns = [(''Close'', [Fin 1, Fin 2])]\<rparr>"
    and unknown: "download example_env (length (fetches start)) ''ZZZZZZ'' ''1y'' =
      Returns (price_frame [])"
    and offline: "download offline_env (length (fetches start)) ''AAPL'' ''1y'' =
      Raises ProviderError"
    by (simp_all add: example_env_def offline_env_def)
  have "\<not> df_empty (price_frame [(2, Fin 10)])"
    and "df_column (price_frame [(2, Fin 10)]) ''Adj Close'' = Some [(2, Fin 10)]"
    and "\<not> df_empty \<lparr>index = [0, 1], columns = [(''Close'', [Fin 1, Fin 2])]\<rparr>"
    and "df_column \<lparr>index = [0, 1], columns = [(''Close'', [Fin 1, Fin 2])]\<rparr> ''Adj Close'' = None"
    and "df_empty (price_frame [])"
    by (simp_all add: price_frame_def df_empty_def df_column_def)
  with new old unknown offline show ?thesis
    using get_historical_data_cases [of example_env "''1y''" "''NEW''" start]
      get_historical_data_cases [of example_env "''1y''" "''OLD''" start]
      get_historical_data_cases [of example_env "''1y''" "''ZZZZZZ''" start]
      get_historical_data_cases [of offline_env "''1y''" "''AAPL''" start]
      get_historical_data_cases [of example_env "''1y''" "[]" start]
    by (simp add: Let_def start_def)
qed

subsection \<open>The return calculator\<close>

text \<open>
  Claim C2. When the fetch is unavailable \<^verbatim>\<open>calculate_average_annual_return\<close> returns
  \<^verbatim>\<open>None\<close>. When the fetch yields the prices \<open>p\<close>, at least two of them and all above
  zero, it returns the mean of \<open>ln (p\<^sub>t / p\<^sub>t\<^sub>-\<^sub>1)\<close> for \<open>t\<close> from 1 to the last index, times
  252, times 100 (in exact arithmetic).
\<close>

theorem average_annual_return_formula:
  "(get_historical_data w period ticker s = (Inr None, s') \<longrightarrow>
      calculate_average_annual_return w period ticker s = (Inr None, s')) \<and>
   (get_historical_data w period ticker s = (Inr (Some closing_prices), s') \<and>
    map snd closing_prices = map Fin p \<and> (\<forall>a\<in>set p. 0 < a) \<and> 2 \<le> length p \<longrightarrow>
      calculate_average_annual_return w period ticker s =
        (Inr (Some (Fin (mean (map (\<lambda>t. ln (p ! t / p ! (t - 1))) [1..<length p]) * 252 * 100))),
         s'))"
proof (intro conjI impI)
  assume "get_historical_data w period ticker s = (Inr None, s')"
  then show "calculate_average_annual_return w period ticker s = (Inr None, s')"
    by (simp add: calculate_average_annual_return_def)
next
  assume a: "get_historical_data w period ticker s = (Inr (Some closing_prices), s') \<and>
    map snd closing_prices = map Fin p \<and> (\<forall>a\<in>set p. 0 < a) \<and> 2 \<le> length p"
  let ?xs = "map (\<lambda>t. ln (p ! t / p ! (t - 1))) [1..<length p]"
  have len: "length closing_prices = length p"
    using a by (metis length_map)
  have "log_returns closing_prices =
      map (\<lambda>i. (fst (closing_prices ! i), Fin (ln (p ! i / p ! (i - 1))))) [1..<length closing_prices]"
    using a by (intro log_returns_positive) simp_all
  then have "map snd (log_returns closing_prices) = map Fin ?xs"
    by (simp add: len o_def)
  moreover have "?xs \<noteq> []" using a by auto
  ultimately have "series_mean (log_returns closing_prices) = Fin (mean ?xs)"
    by (rule series_mean_Fin)
  then show "calculate_average_annual_return w period ticker s =
      (Inr (Some (Fin (mean ?xs * 252 * 100))), s')"
    using a by (simp add: calculate_average_annual_return_def)
qed

theorem average_annual_return_formula_witness:
  "calculate_average_annual_return example_env ''1y'' ''AAPL'' start =
     (Inr (Some (Fin 75600)), start\<lparr>fetches := [(''AAPL'', ''1y'')]\<rparr>) \<and>
   calculate_average_annual_return offline_env ''1y'' ''AAPL'' start =
     (Inr None, start\<lparr>fetches := [(''AAPL'', ''1y'')], errors := [Fetch_failed ''AAPL'']\<rparr>)"
proof
  have "[1..<length [1, exp 2, exp (6::real)]] = [1, 2]"
    by (simp add: upt_rec)
  then have "mean (map (\<lambda>t. ln ([1, exp 2, exp 6] ! t / [1, exp 2, exp (6::real)] ! (t - 1)))
      [1..<length [1, exp 2, exp (6::real)]]) = 3"
    by (simp add: mean_def ln_exp_ratio)
  then show "calculate_average_annual_return example_env ''1y'' ''AAPL'' start =
     (Inr (Some (Fin 75600)), start\<lparr>fetches := [(''AAPL'', ''1y'')]\<rparr>)"
    using average_annual_return_formula [of example_env "''1y''" "''AAPL''" start
        "start\<lparr>fetches := [(''AAPL'', ''1y'')]\<rparr>" aapl_prices "[1, exp 2, exp 6]"]
      example_fetches(1) [of "''1y''" start]
    by (simp add: start_def aapl_prices_def)
  show "calculate_average_annual_return offline_env ''1y'' ''AAPL'' start =
     (Inr None, start\<lparr>fetches := [(''AAPL'', ''1y'')], errors := [Fetch_failed ''AAPL'']\<rparr>)"
    using average_annual_return_formula [of offline_env "''1y''" "''AAPL''" start
        "start\<lparr>fetches := [(''AAPL'', ''1y'')], errors := [Fetch_failed ''AAPL'']\<rparr>"]
      offline_fetch [of "''AAPL''" "''1y''" start]
    by (simp add: start_def)
qed

text \<open>
  Claim C3, as amended. For a series of one price \<^verbatim>\<open>calculate_average_annual_return\<close>
  raises nothing and reports nothing, but what it returns is the number NaN, not
  \<^verbatim>\<open>None\<close>; the loop of the script, which tests \<^verbatim>\<open>is not None\<close>, then counts the ticker
  among the valid ones.
\<close>

theorem single_price_return_is_nan:
  "(get_historical_data w period ticker s = (Inr (Some [(d, x)]), s') \<longrightarrow>
      calculate_average_annual_return w period ticker s = (Inr (Some NaN), s')) \<and>
   valid_tickers (fst (record_ticker ticker (Some NaN) beta (ls, s2))) =
     valid_tickers ls @ [ticker]"
  by (simp add: calculate_average_annual_return_def log_returns_short series_mean_Nil
      record_ticker_def Let_def split: option.splits)

theorem single_price_return_is_nan_witness:
  "calculate_average_annual_return example_env ''1y'' ''NEW'' start =
     (Inr (Some NaN), start\<lparr>fetches := [(''NEW'', ''1y'')]\<rparr>)"
  using single_price_return_is_nan [of example_env "''1y''" "''NEW''" start 2 "Fin 10"]
    example_new
  by simp

text \<open>
  The claim as stated (a \<^verbatim>\<open>None\<close> result for a series of length one) fails for the ticker
  NEW of the example, whose series has one row.
\<close>

theorem single_price_return_not_none:
  "fst (calculate_average_annual_return example_env ''1y'' ''NEW'' start) = Inr (Some NaN) \<and>
   fst (calculate_average_annual_return example_env ''1y'' ''NEW'' start) \<noteq> Inr None"
  by (simp add: calculate_average_annual_return_def example_new log_returns_short
      series_mean_Nil)

subsection \<open>The beta calculator\<close>

text \<open>
  Claim C1. For the ticker \<^verbatim>\<open>"SPY"\<close>, \<^verbatim>\<open>calculate_beta\<close> returns 1.00 at once: whatever
  the data source would answer and whatever the session holds, the result is 1.00 and
  the session is unchanged, so nothing was fetched and nothing was reported.
\<close>

theorem spy_beta_is_one: "calculate_beta w period ''SPY'' s = (Inr (Some (Fin 1)), s)"
  by (simp add: calculate_beta_def calculate_beta_body_def)






text \<open>
  Claim C8. For a constant series of a price above zero, of length two at least,
  \<^verbatim>\<open>calculate_average_annual_return\<close> returns 0; and \<^verbatim>\<open>calculate_beta\<close> of a ticker with
  such a series (of any length) returns the beta 0 when the benchmark's prices are above
  zero and its returns over the merged rows take at least two values.
\<close>

theorem constant_prices:
  "(get_historical_data w period ticker s = (Inr (Some closing_prices), s') \<and>
    map snd closing_prices = replicate n (Fin c) \<and> 0 < c \<and> 2 \<le> n \<longrightarrow>
      calculate_average_annual_return w period ticker s = (Inr (Some (Fin 0)), s')) \<and>
   (ticker \<noteq> ''SPY'' \<and>
    get_historical_data w period ticker s = (Inr (Some closing_prices), s') \<and>
    map snd closing_prices = replicate n (Fin c) \<and> 0 < c \<and>
    download w (length (fetches s')) ''SPY'' period = Returns df \<and>
    df_column df ''Adj Close'' = Some spy_data \<and> positive_prices spy_data \<and>
    varying (log_returns (right_column (pd_merge closing_prices spy_data))) \<longrightarrow>
      calculate_beta w period ticker s =
        (Inr (Some (Fin 0)), s'\<lparr>fetches := fetches s' @ [(''SPY'', period)]\<rparr>))"
proof (intro conjI impI)
  assume a: "get_historical_data w period ticker s = (Inr (Some closing_prices), s') \<and>
    map snd closing_prices = replicate n (Fin c) \<and> 0 < c \<and> 2 \<le> n"
  then have "map snd (log_returns closing_prices) = map Fin (replicate (n - 1) 0)"
    by (simp add: log_returns_constant)
  moreover have "replicate (n - 1) (0::real) \<noteq> []" using a by simp
  ultimately have "series_mean (log_returns closing_prices) = Fin (mean (replicate (n - 1) 0))"
    by (rule series_mean_Fin)
  then show "calculate_average_annual_return w period ticker s = (Inr (Some (Fin 0)), s')"
    using a by (simp add: calculate_average_annual_return_def mean_zeros)
next
  assume b: "ticker \<noteq> ''SPY'' \<and>
    get_historical_data w period ticker s = (Inr (Some closing_prices), s') \<and>
    map snd closing_prices = replicate n (Fin c) \<and> 0 < c \<and>
    download w (length (fetches s')) ''SPY'' period = Returns df \<and>
    df_column df ''Adj Close'' = Some spy_data \<and> positive_prices spy_data \<and>
    varying (log_returns (right_column (pd_merge closing_prices spy_data)))"
  then have fit: "regression w closing_prices spy_data = Inr (Fin 0, Fin 0)"
    by (intro regression_constant_stock [where n = n and c = c]) simp_all
  have ne: "spy_data \<noteq> []"
  proof
    assume "spy_data = []"
    then have "pd_merge closing_prices spy_data = []"
      by (simp add: pd_merge_def)
    then show False
      using b by (simp add: right_column_def log_returns_short varying_def)
  qed
  show "calculate_beta w period ticker s =
      (Inr (Some (Fin 0)), s'\<lparr>fetches := fetches s' @ [(''SPY'', period)]\<rparr>)"
    using b fit ne
      calculate_beta_fitted [of ticker w period s closing_prices s' df spy_data "Fin 0" "Fin 0"]
    by simp
qed

theorem constant_prices_witness:
  "calculate_average_annual_return example_env ''1y'' ''CASH'' start =
     (Inr (Some (Fin 0)), start\<lparr>fetches := [(''CASH'', ''1y'')]\<rparr>) \<and>
   calculate_beta example_env ''1y'' ''CASH'' start =
     (Inr (Some (Fin 0)), start\<lparr>fetches := [(''CASH'', ''1y''), (''SPY'', ''1y'')]\<rparr>)"
proof -
  have "map snd cash_prices = replicate 3 (Fin 5)"
    by (simp add: cash_prices_def numeral_3_eq_3)
  moreover have "positive_prices spy_prices"
    by (simp add: positive_prices_def spy_prices_def)
  moreover have "varying (log_returns (right_column (pd_merge cash_prices spy_prices)))"
    by (auto simp: example_columns example_log_returns varying_def)
  ultimately show ?thesis
    using constant_prices [of example_env "''1y''" "''CASH''" start cash_prices
        "start\<lparr>fetches := [(''CASH'', ''1y'')]\<rparr>" 3 5 "price_frame spy_prices" spy_prices]
      example_fetches(2) [of "''1y''" start]
    by (simp add: start_def example_downloads df_column_price_frame)
qed

text \<open>
  Claim C10. For a ticker other than the benchmark whose fetched series and the fetched
  (non-empty) benchmark series, each with one row a date, share fewer than two dates,
  \<^verbatim>\<open>np.polyfit\<close> raises on the empty returns, \<^verbatim>\<open>calculate_beta\<close> catches it, reports the
  message "error calculating beta" for the ticker and returns \<^verbatim>\<open>None\<close>.
\<close>

theorem beta_fails_on_few_shared_dates:
  assumes "ticker \<noteq> ''SPY''"
    and "get_historical_data w period ticker s = (Inr (Some stock_data), s1)"
    and "download w (length (fetches s1)) ''SPY'' period = Returns df"
    and "df_column df ''Adj Close'' = Some spy_data"
    and "spy_data \<noteq> []"
    and "distinct (map fst stock_data)" and "distinct (map fst spy_data)"
    and "card (dates stock_data \<inter> dates spy_data) < 2"
  shows "calculate_beta w period ticker s =
     (Inr None,
      st_error (Beta_failed ticker) (s1\<lparr>fetches := fetches s1 @ [(''SPY'', period)]\<rparr>))"
proof -
  have "length (pd_merge stock_data spy_data) < 2"
    using assms(6-8) by (simp add: length_pd_merge_card)
  then have "regression w stock_data spy_data = Inl TypeError"
    by (rule regression_few_rows)
  then show ?thesis
    using assms(1-5)
    by (simp add: calculate_beta_def calculate_beta_body_def yf_download_def)
qed

theorem beta_fails_on_few_shared_dates_witness:
  "calculate_beta example_env ''1y'' ''NEW'' start =
     (Inr None,
      start\<lparr>fetches := [(''NEW'', ''1y''), (''SPY'', ''1y'')], errors := [Beta_failed ''NEW'']\<rparr>)"
proof -
  have "card (dates [(2, Fin 10)] \<inter> dates spy_prices) < 2"
    by (simp add: dates_def spy_prices_def)
  moreover have "distinct (map fst spy_prices)" "spy_prices \<noteq> []"
    by (simp_all add: spy_prices_def)
  ultimately show ?thesis
    using beta_fails_on_few_shared_dates [of "''NEW''" example_env "''1y''" start "[(2, Fin 10)]"
        "start\<lparr>fetches := [(''NEW'', ''1y'')]\<rparr>" "price_frame spy_prices" spy_prices]
      example_fetches(3) [of "''1y''" start]
    by (simp add: start_def example_downloads df_column_price_frame st_error_def)
qed

subsection \<open>The script\<close>




text \<open>
  Claim C9, as amended. After the loop over the tickers, which never raises, the script
  draws the chart over the valid tickers (those whose average annual return is not
  \<^verbatim>\<open>None\<close>; every trace is one of them) exactly when some ticker other than the benchmark
  got a beta, or the benchmark was entered and its average annual return is not
  \<^verbatim>\<open>None\<close>; otherwise it writes the message "No valid tickers entered".
\<close>

theorem chart_or_empty_state:
  "\<exists>ls s fig s'.
     process_tickers w period (collect_tickers inputs) no_lists start = (Inr ls, s) \<and>
     valid_tickers ls =
       map fst (filter (\<lambda>(t, r, b). r \<noteq> None) (outcomes w period (collect_tickers inputs) start)) \<and>
     visualize_returns w period (valid_tickers ls) s = (Inr (), st_write (Chart fig) s') \<and>
     page s' = page s \<and> set (map trace_name fig) \<subseteq> set (valid_tickers ls) \<and>
     app w period inputs =
       (if charted (outcomes w period (collect_tickers inputs) start)
        then (Inr (), st_write (Chart fig) s')
        else (Inr (), st_write No_valid_tickers s))"
proof -
  let ?os = "outcomes w period (collect_tickers inputs) start"
  obtain ls s where p: "process_tickers w period (collect_tickers inputs) no_lists start = (Inr ls, s)"
    and valid: "valid_tickers ls =
      valid_tickers no_lists @ map fst (filter (\<lambda>(t, r, b). r \<noteq> None) ?os)"
    and betas: "individual_betas ls \<noteq> [] \<longleftrightarrow>
      individual_betas no_lists \<noteq> [] \<or> list_ex (\<lambda>(t, r, b). t \<noteq> ''SPY'' \<and> b \<noteq> None) ?os"
    using process_tickers_outcomes [of w period "collect_tickers inputs" no_lists start] by blast
  obtain fig s' where chart: "visualize_returns w period (valid_tickers ls) s =
      (Inr (), st_write (Chart fig) s')"
    and "page s' = page s" and "set (map trace_name fig) \<subseteq> set (valid_tickers ls)"
    by (rule visualize_returns_effect)
  moreover have "charted ?os \<longleftrightarrow> individual_betas ls \<noteq> [] \<or> ''SPY'' \<in> set (valid_tickers ls)"
    using valid betas by (simp add: charted_iff no_lists_def)
  then have "app w period inputs =
       (if charted ?os then (Inr (), st_write (Chart fig) s')
        else (Inr (), st_write No_valid_tickers s))"
    using p chart by (simp add: app_def)
  moreover have "valid_tickers ls = map fst (filter (\<lambda>(t, r, b). r \<noteq> None) ?os)"
    using valid by (simp add: no_lists_def)
  ultimately show ?thesis
    using p by blast
qed

theorem chart_or_empty_state_witness:
  "charted (outcomes example_env ''1y'' (collect_tickers [''AAPL'', '''']) start) \<and>
   page (snd (app example_env ''1y'' [''AAPL'', ''''])) =
     [Beta_line ''AAPL'' (Fin 2),
      Chart [\<lparr>trace_name = ''AAPL'', trace_color = ''blue'', trace_data = aapl_prices\<rparr>]]"
proof -
  have "charted (outcomes example_env ''1y'' (collect_tickers [''AAPL'', '''']) start)"
    by (simp add: charted_def example_returns example_beta)
  then show ?thesis
    using chart_or_empty_state [of example_env "''1y''" "[''AAPL'', '''']"]
    by (simp add: example_run)
qed

text \<open>
  The claim as stated (a chart whenever the benchmark was entered) fails when the data
  source is out of reach: SPY is entered and gets its beta 1.00, but it is not a valid
  ticker, and the page shows the message instead of a chart.
\<close>

theorem benchmark_entered_without_chart:
  "collect_tickers [''SPY''] = [''SPY''] \<and>
   fst (calculate_beta offline_env ''1y'' ''SPY'' start) = Inr (Some (Fin 1)) \<and>
   page (snd (app offline_env ''1y'' [''SPY''])) = [Spy_line, No_valid_tickers]"
  by (simp add: app_def calculate_average_annual_return_def offline_fetch calculate_beta_def
      calculate_beta_body_def record_ticker_def no_lists_def start_def st_write_def)

end
